theory Spec2Isabelle
  imports Complex_Main
begin

section \<open>Numbers, strings and errors\<close>

text \<open>
  The game is a pure reducer over immutable snapshots (\<^verbatim>\<open>src/main.ts\<close>).  A TypeScript
  \<^verbatim>\<open>number\<close> is modelled by an exact rational: every coordinate, speed and score the
  reducer computes is a small multiple of one half, which a double represents exactly.
  On other values the source's double arithmetic rounds and the model's does not (a speed
  far below the spacing of doubles near \<open>x\<close> is absorbed by \<^verbatim>\<open>x + speed\<close>), so a
  statement that depends on the sum being exact is made for half-integer values of
  bounded size only (\<open>onHalfGrid\<close> below).
  The one place where the code itself can manufacture a non-number is
  \<^verbatim>\<open>Number(id[6]) - 1\<close>, so the entries of \<^verbatim>\<open>filledSpacesIndex\<close> carry an explicit
  \<^verbatim>\<open>NaN\<close>.  A thrown \<^verbatim>\<open>TypeError\<close> (reducing an empty array, reading a property
  of \<^verbatim>\<open>undefined\<close>) is the value \<open>None\<close>.
\<close>

datatype jsnum = Num rat | NaN

text \<open>\<^verbatim>\<open>s[i]\<close> on a string: \<^verbatim>\<open>undefined\<close> past the end.\<close>

definition charAt :: "string \<Rightarrow> nat \<Rightarrow> char option" where
  "charAt s i = (if i < length s then Some (s ! i) else None)"

text \<open>
  \<^verbatim>\<open>Number(c)\<close> for \<^verbatim>\<open>c\<close> a one-character string or \<^verbatim>\<open>undefined\<close>: a decimal digit is
  its value, a white-space character trims to the empty string and gives 0, anything
  else (and \<^verbatim>\<open>undefined\<close>) gives \<^verbatim>\<open>NaN\<close>.
\<close>

definition digitValue :: "char \<Rightarrow> rat option" where
  "digitValue c =
     map_of [(CHR ''0'', 0), (CHR ''1'', 1), (CHR ''2'', 2), (CHR ''3'', 3), (CHR ''4'', 4),
             (CHR ''5'', 5), (CHR ''6'', 6), (CHR ''7'', 7), (CHR ''8'', 8), (CHR ''9'', 9)] c"

definition isWhiteSpace :: "char \<Rightarrow> bool" where
  "isWhiteSpace c = (c \<in> set [CHR 0x09, CHR 0x0A, CHR 0x0B, CHR 0x0C, CHR 0x0D, CHR 0x20, CHR 0xA0])"

definition toNumber :: "char option \<Rightarrow> jsnum" where
  "toNumber c =
     (case c of
        None \<Rightarrow> NaN
      | Some d \<Rightarrow>
          (case digitValue d of
             Some n \<Rightarrow> Num n
           | None \<Rightarrow> if isWhiteSpace d then Num 0 else NaN))"

text \<open>\<^verbatim>\<open>a - b\<close> where \<^verbatim>\<open>a\<close> may be \<^verbatim>\<open>NaN\<close>.\<close>

definition jsMinus :: "jsnum \<Rightarrow> rat \<Rightarrow> jsnum" where
  "jsMinus a b = (case a of Num n \<Rightarrow> Num (n - b) | NaN \<Rightarrow> NaN)"

text \<open>The decimal text a template literal gives a non-negative integer.\<close>

definition digitChar :: "nat \<Rightarrow> char" where
  "digitChar n = ''0123456789'' ! (n mod 10)"

fun showNat :: "nat \<Rightarrow> string" where
  "showNat n = (if n < 10 then [digitChar n] else showNat (n div 10) @ [digitChar n])"

declare showNat.simps [simp del]

section \<open>Game constants\<close>

definition CANVAS_SIZE :: rat where [simp]: "CANVAS_SIZE = 600"
definition FROG_START_X :: rat where [simp]: "FROG_START_X = 279"
definition FROG_START_Y :: rat where [simp]: "FROG_START_Y = 523"
definition FROG_STEP_X :: rat where [simp]: "FROG_STEP_X = 43"
definition FROG_STEP_Y :: rat where [simp]: "FROG_STEP_Y = 59"
definition FROG_WIDTH :: rat where [simp]: "FROG_WIDTH = 40"
definition FROG_HEIGHT :: rat where [simp]: "FROG_HEIGHT = 42"
definition CAR_COUNT :: nat where [simp]: "CAR_COUNT = 3"
definition CAR_WIDTH :: rat where [simp]: "CAR_WIDTH = 40"
definition CAR_HEIGHT :: rat where [simp]: "CAR_HEIGHT = 42"
definition CAR1_SPEED :: rat where [simp]: "CAR1_SPEED = - 10"
definition CAR2_SPEED :: rat where [simp]: "CAR2_SPEED = 20"
definition CAR3_SPEED :: rat where [simp]: "CAR3_SPEED = - 15"
definition LOG_COUNT :: nat where [simp]: "LOG_COUNT = 3"
definition LOG_WIDTH :: rat where [simp]: "LOG_WIDTH = 140"
definition LOG_HEIGHT :: rat where [simp]: "LOG_HEIGHT = 42"
definition LOG1_SPEED :: rat where [simp]: "LOG1_SPEED = 10"
definition LOG2_SPEED :: rat where [simp]: "LOG2_SPEED = 15"
definition TURTLE_WIDTH :: rat where [simp]: "TURTLE_WIDTH = 180"
definition TURTLE_HEIGHT :: rat where [simp]: "TURTLE_HEIGHT = 42"
definition TURTLE_SPEED :: rat where [simp]: "TURTLE_SPEED = - 5"
definition TURTLE_COUNT :: nat where [simp]: "TURTLE_COUNT = 3"
definition TARGET_POINTS :: rat where [simp]: "TARGET_POINTS = 100"
definition TARGET_COUNT :: nat where [simp]: "TARGET_COUNT = 5"
definition ROW_1 :: rat where [simp]: "ROW_1 = 464"
definition ROW_2 :: rat where [simp]: "ROW_2 = 405"
definition ROW_3 :: rat where [simp]: "ROW_3 = 346"
definition ROW_4 :: rat where [simp]: "ROW_4 = 228"
definition ROW_5 :: rat where [simp]: "ROW_5 = 169"
definition ROW_6 :: rat where [simp]: "ROW_6 = 110"
definition ROW_7 :: rat where [simp]: "ROW_7 = 51"
definition OBJECT_WIDTH :: rat where [simp]: "OBJECT_WIDTH = 200"
definition BUSH_WIDTH :: rat where [simp]: "BUSH_WIDTH = 129"
definition SPEED_INCREASE :: rat where [simp]: "SPEED_INCREASE = 1 / 2"

section \<open>Data model\<close>

text \<open>
  \<^verbatim>\<open>Frog\<close>, \<^verbatim>\<open>Body\<close> (a \<^verbatim>\<open>Frog\<close> with a direction flag) and \<^verbatim>\<open>State\<close>, field by field.
  The field \<^verbatim>\<open>id\<close> is called \<open>id_str\<close> here.
\<close>

record Frog =
  id_str :: string
  x :: rat
  y :: rat
  img :: string
  width :: rat
  height :: rat

record Body = Frog +
  leftDirection :: bool

record State =
  frog :: Frog
  cars :: "Body list"
  logs :: "Body list"
  turtles :: "Body list"
  filledSpaces :: "Body list"
  filledSpacesIndex :: "jsnum list"
  score :: rat
  highscore :: rat
  level :: rat
  gameOver :: bool

text \<open>The three event classes the reducer dispatches on.\<close>

datatype Event = Tick nat | Move rat rat | Restart bool

section \<open>Entity factory\<close>

definition createFrog :: "string \<Rightarrow> string \<Rightarrow> rat \<times> rat \<Rightarrow> rat \<times> rat \<Rightarrow> Frog" where
  "createFrog i im pos dims =
     \<lparr>id_str = i, x = fst pos, y = snd pos, img = im, width = fst dims, height = snd dims\<rparr>"

text \<open>
  The row creators recurse on the column count down to 0, appending each new body:
  the body of column \<open>col\<close> comes before that of column \<open>col - 1\<close>.  Rows and counts
  are natural numbers: the source passes the literal rows 1 to 3 and the count
  constants, and its recursion ends only when the count reaches 0 exactly.
\<close>

fun createCarRow :: "nat \<Rightarrow> nat \<Rightarrow> Body list \<Rightarrow> Body list" where
  "createCarRow row 0 cs = cs"
| "createCarRow row (Suc c) cs =
     createCarRow row c (cs @
       [\<lparr>id_str = ''CAR'' @ showNat row @ ''-'' @ showNat (Suc c),
         x = of_nat (Suc c) * OBJECT_WIDTH,
         y = (if row = 3 then ROW_3 else if row = 2 then ROW_2 else ROW_1),
         img = (if row = 3 then ''../frogger/assets/car3.png''
                else if row = 2 then ''../frogger/assets/car2.png''
                else ''../frogger/assets/car1.png''),
         width = CAR_WIDTH,
         height = CAR_HEIGHT,
         leftDirection = (row mod 2 = 0)\<rparr>])"

definition car1 :: "nat \<Rightarrow> Body list \<Rightarrow> Body list" where "car1 = createCarRow 1"
definition car2 :: "nat \<Rightarrow> Body list \<Rightarrow> Body list" where "car2 = createCarRow 2"
definition car3 :: "nat \<Rightarrow> Body list \<Rightarrow> Body list" where "car3 = createCarRow 3"

fun createLogRow :: "nat \<Rightarrow> nat \<Rightarrow> Body list \<Rightarrow> Body list" where
  "createLogRow row 0 ls = ls"
| "createLogRow row (Suc c) ls =
     createLogRow row c (ls @
       [\<lparr>id_str = ''LOG'' @ showNat row @ ''-'' @ showNat (Suc c),
         x = of_nat (Suc c) * OBJECT_WIDTH,
         y = (if row = 2 then ROW_6 else ROW_4),
         img = ''../frogger/assets/log.png'',
         width = LOG_WIDTH,
         height = LOG_HEIGHT,
         leftDirection = False\<rparr>])"

definition log1 :: "nat \<Rightarrow> Body list \<Rightarrow> Body list" where "log1 = createLogRow 1"
definition log2 :: "nat \<Rightarrow> Body list \<Rightarrow> Body list" where "log2 = createLogRow 2"

fun createTurtleRow :: "nat \<Rightarrow> Body list \<Rightarrow> Body list" where
  "createTurtleRow 0 ts = ts"
| "createTurtleRow (Suc c) ts =
     createTurtleRow c (ts @
       [\<lparr>id_str = ''TURTLE-'' @ showNat (Suc c),
         x = of_nat (Suc c) * OBJECT_WIDTH,
         y = ROW_5,
         img = ''../frogger/assets/turtles.png'',
         width = TURTLE_WIDTH,
         height = TURTLE_HEIGHT,
         leftDirection = True\<rparr>])"

fun createFilledSpaces :: "nat \<Rightarrow> Body list \<Rightarrow> Body list" where
  "createFilledSpaces 0 fs = fs"
| "createFilledSpaces (Suc c) fs =
     createFilledSpaces c (fs @
       [\<lparr>id_str = ''FILLED'' @ showNat (Suc c),
         x = (FROG_START_X - 6 * FROG_STEP_X) + of_nat (Suc c) * BUSH_WIDTH - BUSH_WIDTH,
         y = ROW_7,
         img = ''../frogger/assets/frog.png'',
         width = FROG_WIDTH,
         height = FROG_HEIGHT,
         leftDirection = False\<rparr>])"

section \<open>Motion engine\<close>

definition wrap :: "Body \<Rightarrow> bool \<Rightarrow> rat \<Rightarrow> Body" where
  "wrap objectState left speed =
     (let newX = x objectState + speed in
      if left
      then objectState\<lparr>x := (if newX \<ge> CANVAS_SIZE then - width objectState / 2 else newX)\<rparr>
      else objectState\<lparr>x := (if newX \<le> - width objectState
                               then CANVAS_SIZE - width objectState / 2 else newX)\<rparr>)"

section \<open>Collision detector\<close>

definition onWaterObj :: "Frog \<Rightarrow> Body \<Rightarrow> bool" where
  "onWaterObj f ob =
     ((x f \<ge> x ob \<and> x f < x ob + 3 * FROG_STEP_X) \<and> y f = y ob)"

definition frogOnLog :: "State \<Rightarrow> bool" where
  "frogOnLog s = (length (filter (\<lambda>l. onWaterObj (frog s) l) (logs s)) > 0)"

definition frogOnTurtle :: "State \<Rightarrow> bool" where
  "frogOnTurtle s = (length (filter (\<lambda>t. onWaterObj (frog s) t) (turtles s)) > 0)"

definition getXCoord :: "rat \<Rightarrow> rat" where
  "getXCoord n = FROG_START_X + n * FROG_STEP_X"

definition onBushes :: "Frog \<Rightarrow> bool" where
  "onBushes f =
     ((x f + width f \<le> getXCoord (- 3) + width f / 4 \<and> x f \<ge> getXCoord (- 5) - width f / 4
       \<or> x f + width f \<le> FROG_START_X + width f / 4 \<and> x f \<ge> getXCoord (- 2) - width f / 4
       \<or> x f + width f \<le> getXCoord 3 + width f / 4 \<and> x f \<ge> getXCoord 1 - width f / 4
       \<or> x f + width f \<le> getXCoord 6 + width f / 4 \<and> x f \<ge> getXCoord 4 - width f / 4)
      \<and> y f = ROW_7)"

definition obstacleCollision :: "Frog \<Rightarrow> Body \<Rightarrow> bool" where
  "obstacleCollision f obstacle =
     (((x obstacle < x f + width f \<and> x f < x obstacle)
       \<or> (x obstacle + width obstacle > x f \<and> x f + width f > x obstacle + width obstacle))
      \<and> y f = y obstacle)"

definition frogCollided :: "State \<Rightarrow> bool" where
  "frogCollided s = (length (filter (\<lambda>car. obstacleCollision (frog s) car) (cars s)) > 0)"

definition onWater :: "Frog \<Rightarrow> bool" where
  "onWater f = (y f \<ge> ROW_6 \<and> y f \<le> ROW_4)"

definition unsafeBoundary :: "Frog \<Rightarrow> bool" where
  "unsafeBoundary f = (x f + width f / 2 \<ge> CANVAS_SIZE \<or> x f + width f / 2 \<le> 0)"

definition frogOnObj :: "State \<Rightarrow> bool" where
  "frogOnObj s = (frogOnLog s \<or> frogOnTurtle s)"

definition handleCollisions :: "State \<Rightarrow> State" where
  "handleCollisions s =
     s\<lparr>gameOver := (frogCollided s \<or> (onWater (frog s) \<and> \<not> frogOnObj s)
                    \<or> (frogOnObj s \<and> unsafeBoundary (frog s)) \<or> onBushes (frog s))\<rparr>"

section \<open>Initial snapshot and play-field bounds\<close>

definition initialState :: State where
  "initialState =
     \<lparr>frog = createFrog ''FROG'' ''../frogger/assets/frog.png''
               (FROG_START_X, FROG_START_Y) (FROG_WIDTH, FROG_HEIGHT),
      cars = car1 CAR_COUNT [] @ car2 CAR_COUNT [] @ car3 CAR_COUNT [],
      logs = log1 LOG_COUNT [] @ log2 LOG_COUNT [],
      turtles = createTurtleRow TURTLE_COUNT [],
      filledSpaces = createFilledSpaces TARGET_COUNT [],
      filledSpacesIndex = [],
      score = 0,
      highscore = 0,
      level = 0,
      gameOver = False\<rparr>"

definition outLeftBound :: "rat \<Rightarrow> bool" where
  "outLeftBound xPos = (xPos < getXCoord (- 6))"

definition outRightBound :: "rat \<Rightarrow> bool" where
  "outRightBound xPos = (xPos \<ge> getXCoord 7)"

definition outUpBound :: "rat \<Rightarrow> bool" where
  "outUpBound yPos = (yPos < ROW_7)"

definition outDownBound :: "rat \<Rightarrow> bool" where
  "outDownBound yPos = (yPos \<ge> FROG_START_Y + FROG_STEP_Y)"

definition illegalMove :: "rat \<Rightarrow> rat \<Rightarrow> bool" where
  "illegalMove xPos yPos =
     (outLeftBound xPos \<or> outRightBound xPos \<or> outUpBound yPos \<or> outDownBound yPos)"

section \<open>Progress tracker\<close>

definition inTarget :: "State \<Rightarrow> bool" where
  "inTarget s = (y (frog s) = ROW_7 \<and> \<not> onBushes (frog s))"

text \<open>
  \<^verbatim>\<open>reduce\<close> without an initial value: the first element seeds the accumulator, and an
  empty array throws.
\<close>

definition nearestObject :: "State \<Rightarrow> Body option" where
  "nearestObject s =
     (case filledSpaces s of
        [] \<Rightarrow> None
      | b # bs \<Rightarrow>
          Some (foldl (\<lambda>acc object.
                  if \<bar>x object - x (frog s)\<bar> < \<bar>x acc - x (frog s)\<bar> then object else acc)
                b bs))"

text \<open>\<^verbatim>\<open>Number(b.id[6]) - 1\<close>.\<close>

definition targetIndex :: "Body \<Rightarrow> jsnum" where
  "targetIndex b = jsMinus (toNumber (charAt (id_str b) 6)) 1"

text \<open>\<^verbatim>\<open>includes\<close> compares by SameValueZero, under which \<^verbatim>\<open>NaN\<close> equals itself.\<close>

definition updateFilledInd :: "State \<Rightarrow> jsnum list option" where
  "updateFilledInd s =
     (if inTarget s
      then (case nearestObject s of
              None \<Rightarrow> None
            | Some b \<Rightarrow>
                Some (filledSpacesIndex s @
                  (if targetIndex b \<in> set (filledSpacesIndex s) then [] else [targetIndex b])))
      else Some (filledSpacesIndex s))"

definition checkFilled :: "State \<Rightarrow> bool option" where
  "checkFilled s =
     (case nearestObject s of
        None \<Rightarrow> None
      | Some b \<Rightarrow> Some (targetIndex b \<in> set (filledSpacesIndex s)))"

definition updateScore :: "State \<Rightarrow> rat option" where
  "updateScore s =
     (if inTarget s
      then (case checkFilled s of
              None \<Rightarrow> None
            | Some filled \<Rightarrow> Some (if \<not> filled then score s + 100 else score s))
      else Some (score s))"

section \<open>World reducer\<close>

text \<open>
  The two non-reset branches of \<^verbatim>\<open>tick\<close> spell out the same four expressions for the
  cars, the logs, the turtles and the frog; each is given once here.  \<open>m\<close> is the speed
  multiplier \<^verbatim>\<open>currentState.level * SPEED_INCREASE\<close>.
\<close>

definition speedMultiplier :: "State \<Rightarrow> rat" where
  "speedMultiplier s = level s * SPEED_INCREASE"

definition tickCar :: "rat \<Rightarrow> Body \<Rightarrow> Body" where
  "tickCar m carState =
     (if leftDirection carState then wrap carState True (CAR2_SPEED + m)
      else if charAt (id_str carState) 3 = Some CHR ''3'' then wrap carState False (CAR3_SPEED - m)
      else wrap carState False (CAR1_SPEED - m))"

definition tickLog :: "rat \<Rightarrow> Body \<Rightarrow> Body" where
  "tickLog m logState =
     (if charAt (id_str logState) 3 = Some CHR ''2'' then wrap logState True (LOG2_SPEED + m)
      else wrap logState True (LOG1_SPEED + m))"

definition tickTurtle :: "rat \<Rightarrow> Body \<Rightarrow> Body" where
  "tickTurtle m turtleState = wrap turtleState False (TURTLE_SPEED - m)"

text \<open>
  The frog of the next snapshot.  \<^verbatim>\<open>logs[0]\<close> and \<^verbatim>\<open>turtles[0]\<close> are read only after
  \<^verbatim>\<open>frogOnLog\<close> or \<^verbatim>\<open>frogOnTurtle\<close> has found an element; \<^verbatim>\<open>logs[3]\<close> is read whenever
  \<^verbatim>\<open>frogOnLog\<close> holds and the first test failed, and reading \<^verbatim>\<open>.y\<close> of a missing
  fourth log throws.
\<close>

definition tickFrog :: "State \<Rightarrow> Frog option" where
  "tickFrog s =
     (let m = speedMultiplier s in
      if inTarget s then Some (frog initialState)
      else if frogOnLog s \<and> y (frog s) = y (logs s ! 0)
        then Some ((frog s)\<lparr>x := x (frog s) + (LOG1_SPEED + m)\<rparr>)
      else if frogOnLog s \<and> length (logs s) < 4 then None
      else if frogOnLog s \<and> y (frog s) = y (logs s ! 3)
        then Some ((frog s)\<lparr>x := x (frog s) + (LOG2_SPEED + m)\<rparr>)
      else if frogOnTurtle s \<and> y (frog s) = y (turtles s ! 0)
        then Some ((frog s)\<lparr>x := x (frog s) + (TURTLE_SPEED - m)\<rparr>)
      else Some (frog s))"

definition resetState :: "State \<Rightarrow> State" where
  "resetState s =
     s\<lparr>frog := createFrog ''FROG'' ''../frogger/assets/frog.png''
                 (FROG_START_X, FROG_START_Y) (FROG_WIDTH, FROG_HEIGHT),
       cars := car1 CAR_COUNT [] @ car2 CAR_COUNT [] @ car3 CAR_COUNT [],
       logs := log1 LOG_COUNT [] @ log2 LOG_COUNT [],
       turtles := createTurtleRow TURTLE_COUNT [],
       filledSpaces := createFilledSpaces TARGET_COUNT [],
       filledSpacesIndex := [],
       score := 0,
       level := 0,
       gameOver := False\<rparr>"

definition tick :: "State \<Rightarrow> State option" where
  "tick currentState =
     (let m = speedMultiplier currentState in
      if gameOver currentState then Some (resetState currentState)
      else if length (filledSpacesIndex currentState) < 5 then
        (case updateScore currentState of
           None \<Rightarrow> None
         | Some sc \<Rightarrow>
        (case tickFrog currentState of
           None \<Rightarrow> None
         | Some fr \<Rightarrow>
        (case updateFilledInd currentState of
           None \<Rightarrow> None
         | Some fi \<Rightarrow>
             Some (handleCollisions (currentState
               \<lparr>cars := map (tickCar m) (cars currentState),
                logs := map (tickLog m) (logs currentState),
                turtles := map (tickTurtle m) (turtles currentState),
                score := sc,
                highscore := (if highscore currentState \<le> score currentState
                              then score currentState else highscore currentState),
                frog := fr,
                filledSpacesIndex := fi\<rparr>)))))
      else
        (case updateScore currentState of
           None \<Rightarrow> None
         | Some sc \<Rightarrow>
        (case tickFrog currentState of
           None \<Rightarrow> None
         | Some fr \<Rightarrow>
             Some (handleCollisions (currentState
               \<lparr>level := level currentState + 1,
                cars := map (tickCar m) (cars currentState),
                logs := map (tickLog m) (logs currentState),
                turtles := map (tickTurtle m) (turtles currentState),
                score := sc,
                highscore := (if highscore currentState \<le> score currentState
                              then score currentState else highscore currentState),
                frog := fr,
                filledSpacesIndex := []\<rparr>)))))"

fun reduceState :: "State \<Rightarrow> Event \<Rightarrow> State option" where
  "reduceState currentState (Move ex ey) =
     (let newX = x (frog currentState) + ex;
          newY = y (frog currentState) + ey
      in Some (currentState\<lparr>frog := (frog currentState)
           \<lparr>x := (if illegalMove newX FROG_START_Y then x (frog currentState)
                  else x (frog currentState) + ex),
            y := (if illegalMove FROG_START_X newY then y (frog currentState)
                  else y (frog currentState) + ey)\<rparr>\<rparr>))"
| "reduceState currentState (Restart v) = Some (resetState currentState)"
| "reduceState currentState (Tick n) = tick currentState"

text \<open>
  \<^verbatim>\<open>scan(reduceState, initialState)\<close>: the snapshot after a finite prefix of the merged
  event stream, \<open>None\<close> once a reduction has thrown.
\<close>

fun run :: "State \<Rightarrow> Event list \<Rightarrow> State option" where
  "run s [] = Some s"
| "run s (e # es) = (case reduceState s e of None \<Rightarrow> None | Some s' \<Rightarrow> run s' es)"

text \<open>The four move events the key streams emit (\<^verbatim>\<open>moveLeft$\<close> ... \<^verbatim>\<open>moveDown$\<close>).\<close>

definition moveLeft :: Event where "moveLeft = Move (- FROG_STEP_X) 0"
definition moveRight :: Event where "moveRight = Move FROG_STEP_X 0"
definition moveUp :: Event where "moveUp = Move 0 (- FROG_STEP_Y)"
definition moveDown :: Event where "moveDown = Move 0 FROG_STEP_Y"

section \<open>Vocabulary of the specification\<close>

text \<open>
  The specification speaks of a body that is ``entirely outside the canvas''.  Following
  its words: the span from \<open>x\<close> to \<open>x + width\<close> lies at or beyond the right edge, or at
  or before the left edge.  These are the two thresholds \<^verbatim>\<open>wrap\<close> itself tests.
\<close>

definition entirelyOutsideCanvas :: "Body \<Rightarrow> bool" where
  "entirelyOutsideCanvas b = (x b \<ge> CANVAS_SIZE \<or> x b + width b \<le> 0)"

text \<open>
  The values on which \<^verbatim>\<open>wrap\<close> computes without rounding: multiples of one half of
  magnitude at most a million.  For such \<open>x\<close>, \<open>width\<close> and \<open>speed\<close> every number
  \<^verbatim>\<open>wrap\<close> forms (\<open>x + speed\<close>, \<open>- width\<close>, \<open>- width / 2\<close>, \<open>CANVAS_SIZE - width / 2\<close>) is a
  multiple of one quarter below \<open>2 ^ 22\<close>, which a double holds exactly; there the
  rational arithmetic of the model is the arithmetic of the code.
\<close>

definition onHalfGrid :: "rat \<Rightarrow> bool" where
  "onHalfGrid v = (of_int \<lfloor>2 * v\<rfloor> = 2 * v \<and> \<bar>v\<bar> \<le> 1000000)"

text \<open>
  The events the merged stream can carry: any tick, any restart, and of the moves only
  the four that the key streams construct.
\<close>

fun emitted :: "Event \<Rightarrow> bool" where
  "emitted (Move ex ey) = (Move ex ey \<in> set [moveLeft, moveRight, moveUp, moveDown])"
| "emitted (Tick n) = True"
| "emitted (Restart v) = True"

section \<open>Example snapshots and runs\<close>

text \<open>
  The player in the middle target slot, that slot already recorded as filled.
\<close>

definition slotThreeSnapshot :: State where
  "slotThreeSnapshot =
     initialState\<lparr>frog := (frog initialState)\<lparr>y := 51\<rparr>,
                  filledSpacesIndex := [Num 2], score := 100\<rparr>"

text \<open>
  All five slots filled at the start position: the score already counts the fifth slot,
  the high score still lags one tick behind it.
\<close>

definition rolloverSnapshot :: State where
  "rolloverSnapshot =
     initialState\<lparr>filledSpacesIndex := [Num 0, Num 1, Num 2, Num 3, Num 4],
                  score := 500, highscore := 400\<rparr>"

text \<open>
  Three steps left, four ticks, one step up into the first traffic lane, one tick:
  the car \<^verbatim>\<open>CAR1-1\<close> has by then driven from 200 to 150, the column of the player.
\<close>

definition coincidentRun :: "Event list" where
  "coincidentRun =
     [moveLeft, moveLeft, moveLeft, Tick 0, Tick 1, Tick 2, Tick 3, moveUp, Tick 4]"

section \<open>The initial layout, evaluated\<close>

lemma showNat_digit: "n < 10 \<Longrightarrow> showNat n = [digitChar n]"
  by (subst showNat.simps) simp

lemma digitChar_simps:
  "digitChar (Suc 0) = CHR ''1''"
  "digitChar 1 = CHR ''1''" "digitChar 2 = CHR ''2''" "digitChar 3 = CHR ''3''"
  "digitChar 4 = CHR ''4''" "digitChar 5 = CHR ''5''"
  by (simp_all add: digitChar_def)

lemma createCarRow_numeral:
  "createCarRow row (numeral k) cs =
     createCarRow row (pred_numeral k) (cs @
       [\<lparr>id_str = ''CAR'' @ showNat row @ ''-'' @ showNat (numeral k),
         x = of_nat (numeral k) * OBJECT_WIDTH,
         y = (if row = 3 then ROW_3 else if row = 2 then ROW_2 else ROW_1),
         img = (if row = 3 then ''../frogger/assets/car3.png''
                else if row = 2 then ''../frogger/assets/car2.png''
                else ''../frogger/assets/car1.png''),
         width = CAR_WIDTH,
         height = CAR_HEIGHT,
         leftDirection = (row mod 2 = 0)\<rparr>])"
  by (simp add: numeral_eq_Suc)

lemma createLogRow_numeral:
  "createLogRow row (numeral k) ls =
     createLogRow row (pred_numeral k) (ls @
       [\<lparr>id_str = ''LOG'' @ showNat row @ ''-'' @ showNat (numeral k),
         x = of_nat (numeral k) * OBJECT_WIDTH,
         y = (if row = 2 then ROW_6 else ROW_4),
         img = ''../frogger/assets/log.png'',
         width = LOG_WIDTH,
         height = LOG_HEIGHT,
         leftDirection = False\<rparr>])"
  by (simp add: numeral_eq_Suc)

lemma createTurtleRow_numeral:
  "createTurtleRow (numeral k) ts =
     createTurtleRow (pred_numeral k) (ts @
       [\<lparr>id_str = ''TURTLE-'' @ showNat (numeral k),
         x = of_nat (numeral k) * OBJECT_WIDTH,
         y = ROW_5,
         img = ''../frogger/assets/turtles.png'',
         width = TURTLE_WIDTH,
         height = TURTLE_HEIGHT,
         leftDirection = True\<rparr>])"
  by (simp add: numeral_eq_Suc)

lemma createFilledSpaces_numeral:
  "createFilledSpaces (numeral k) fs =
     createFilledSpaces (pred_numeral k) (fs @
       [\<lparr>id_str = ''FILLED'' @ showNat (numeral k),
         x = (FROG_START_X - 6 * FROG_STEP_X) + of_nat (numeral k) * BUSH_WIDTH - BUSH_WIDTH,
         y = ROW_7,
         img = ''../frogger/assets/frog.png'',
         width = FROG_WIDTH,
         height = FROG_HEIGHT,
         leftDirection = False\<rparr>])"
  by (simp add: numeral_eq_Suc)

lemmas factory_eval =
  createCarRow_numeral createLogRow_numeral createTurtleRow_numeral createFilledSpaces_numeral
  showNat_digit digitChar_simps car1_def car2_def car3_def log1_def log2_def

lemma initial_slots: "createFilledSpaces TARGET_COUNT [] = 
  [\<lparr>id_str = ''FILLED5'', x = 537, y = 51,
     img = ''../frogger/assets/frog.png'', width = 40, height = 42,
     leftDirection = False\<rparr>,
  \<lparr>id_str = ''FILLED4'', x = 408, y = 51,
     img = ''../frogger/assets/frog.png'', width = 40, height = 42,
     leftDirection = False\<rparr>,
  \<lparr>id_str = ''FILLED3'', x = 279, y = 51,
     img = ''../frogger/assets/frog.png'', width = 40, height = 42,
     leftDirection = False\<rparr>,
  \<lparr>id_str = ''FILLED2'', x = 150, y = 51,
     img = ''../frogger/assets/frog.png'', width = 40, height = 42,
     leftDirection = False\<rparr>,
  \<lparr>id_str = ''FILLED1'', x = 21, y = 51,
     img = ''../frogger/assets/frog.png'', width = 40, height = 42,
     leftDirection = False\<rparr>]"
  by (simp add: factory_eval)

lemma initial_cars:
  "car1 CAR_COUNT [] @ car2 CAR_COUNT [] @ car3 CAR_COUNT [] =
   [\<lparr>id_str = ''CAR1-3'', x = 600, y = 464,
     img = ''../frogger/assets/car1.png'', width = 40, height = 42,
     leftDirection = False\<rparr>,
  \<lparr>id_str = ''CAR1-2'', x = 400, y = 464,
     img = ''../frogger/assets/car1.png'', width = 40, height = 42,
     leftDirection = False\<rparr>,
  \<lparr>id_str = ''CAR1-1'', x = 200, y = 464,
     img = ''../frogger/assets/car1.png'', width = 40, height = 42,
     leftDirection = False\<rparr>,
  \<lparr>id_str = ''CAR2-3'', x = 600, y = 405,
     img = ''../frogger/assets/car2.png'', width = 40, height = 42,
     leftDirection = True\<rparr>,
  \<lparr>id_str = ''CAR2-2'', x = 400, y = 405,
     img = ''../frogger/assets/car2.png'', width = 40, height = 42,
     leftDirection = True\<rparr>,
  \<lparr>id_str = ''CAR2-1'', x = 200, y = 405,
     img = ''../frogger/assets/car2.png'', width = 40, height = 42,
     leftDirection = True\<rparr>,
  \<lparr>id_str = ''CAR3-3'', x = 600, y = 346,
     img = ''../frogger/assets/car3.png'', width = 40, height = 42,
     leftDirection = False\<rparr>,
  \<lparr>id_str = ''CAR3-2'', x = 400, y = 346,
     img = ''../frogger/assets/car3.png'', width = 40, height = 42,
     leftDirection = False\<rparr>,
  \<lparr>id_str = ''CAR3-1'', x = 200, y = 346,
     img = ''../frogger/assets/car3.png'', width = 40, height = 42,
     leftDirection = False\<rparr>]"
  by (simp add: factory_eval)

lemma initial_logs:
  "log1 LOG_COUNT [] @ log2 LOG_COUNT [] =
   [\<lparr>id_str = ''LOG1-3'', x = 600, y = 228,
     img = ''../frogger/assets/log.png'', width = 140, height = 42,
     leftDirection = False\<rparr>,
  \<lparr>id_str = ''LOG1-2'', x = 400, y = 228,
     img = ''../frogger/assets/log.png'', width = 140, height = 42,
     leftDirection = False\<rparr>,
  \<lparr>id_str = ''LOG1-1'', x = 200, y = 228,
     img = ''../frogger/assets/log.png'', width = 140, height = 42,
     leftDirection = False\<rparr>,
  \<lparr>id_str = ''LOG2-3'', x = 600, y = 110,
     img = ''../frogger/assets/log.png'', width = 140, height = 42,
     leftDirection = False\<rparr>,
  \<lparr>id_str = ''LOG2-2'', x = 400, y = 110,
     img = ''../frogger/assets/log.png'', width = 140, height = 42,
     leftDirection = False\<rparr>,
  \<lparr>id_str = ''LOG2-1'', x = 200, y = 110,
     img = ''../frogger/assets/log.png'', width = 140, height = 42,
     leftDirection = False\<rparr>]"
  by (simp add: factory_eval)

lemma initial_turtles:
  "createTurtleRow TURTLE_COUNT [] =
   [\<lparr>id_str = ''TURTLE-3'', x = 600, y = 169,
     img = ''../frogger/assets/turtles.png'', width = 180, height = 42,
     leftDirection = True\<rparr>,
  \<lparr>id_str = ''TURTLE-2'', x = 400, y = 169,
     img = ''../frogger/assets/turtles.png'', width = 180, height = 42,
     leftDirection = True\<rparr>,
  \<lparr>id_str = ''TURTLE-1'', x = 200, y = 169,
     img = ''../frogger/assets/turtles.png'', width = 180, height = 42,
     leftDirection = True\<rparr>]"
  by (simp add: factory_eval)

lemmas initial_slots_5 = initial_slots [unfolded TARGET_COUNT_def]
lemmas initial_cars_3 = initial_cars [unfolded CAR_COUNT_def]
lemmas initial_logs_3 = initial_logs [unfolded LOG_COUNT_def]
lemmas initial_turtles_3 = initial_turtles [unfolded TURTLE_COUNT_def]

lemma initial_fields:
  "cars initialState = car1 CAR_COUNT [] @ car2 CAR_COUNT [] @ car3 CAR_COUNT []"
  "logs initialState = log1 LOG_COUNT [] @ log2 LOG_COUNT []"
  "turtles initialState = createTurtleRow TURTLE_COUNT []"
  "filledSpaces initialState = createFilledSpaces TARGET_COUNT []"
  "filledSpacesIndex initialState = []"
  "score initialState = 0"
  "highscore initialState = 0"
  "level initialState = 0"
  "gameOver initialState = False"
  by (simp_all add: initialState_def)

lemma initial_frog:
  "frog initialState =
     \<lparr>id_str = ''FROG'', x = 279, y = 523, img = ''../frogger/assets/frog.png'',
      width = 40, height = 42\<rparr>"
  by (simp add: initialState_def createFrog_def)

lemma resetState_eq: "resetState s = initialState\<lparr>highscore := highscore s\<rparr>"
  by (cases s) (simp add: resetState_def initialState_def)

section \<open>Game-over frame\<close>

text \<open>
  C1.  A tick delivered to a snapshot whose game-over flag is set returns the initial
  snapshot (start position of the player, freshly built cars, logs, turtles and target
  slots, no filled index, score 0, level 0, flag cleared) with the high score of the
  incoming snapshot; in particular the bodies are the initial ones, not advanced ones.
\<close>

theorem tick_gameOver_resets:
  "gameOver s \<Longrightarrow> tick s = Some (initialState\<lparr>highscore := highscore s\<rparr>)"
  by (simp add: tick_def resetState_eq)

theorem tick_gameOver_resets_witness:
  "gameOver (initialState\<lparr>score := 300, highscore := 700, level := 2, gameOver := True\<rparr>)
   \<and> tick (initialState\<lparr>score := 300, highscore := 700, level := 2, gameOver := True\<rparr>)
       = Some (initialState\<lparr>highscore := 700\<rparr>)"
  using tick_gameOver_resets
    [of "initialState\<lparr>score := 300, highscore := 700, level := 2, gameOver := True\<rparr>"]
  by simp

section \<open>Motion engine: wrap\<close>

text \<open>
  C5, as stated, fails: \<^verbatim>\<open>wrap\<close> tests only the edge that lies in the direction of the
  flag, so a body flagged rightward but given a negative speed, or one that starts far
  beyond the left edge, ends the step entirely outside the canvas.  Both inputs are
  whole numbers, so the code computes exactly these values.
\<close>

theorem wrap_outside_counterexample:
  "entirelyOutsideCanvas
     (wrap \<lparr>id_str = ''CAR2-1'', x = 10, y = 405, img = ''../frogger/assets/car2.png'',
            width = 40, height = 42, leftDirection = True\<rparr> True (- 100))
   \<and> entirelyOutsideCanvas
     (wrap \<lparr>id_str = ''CAR2-1'', x = - 1000, y = 405, img = ''../frogger/assets/car2.png'',
            width = 40, height = 42, leftDirection = True\<rparr> True 20)"
  by (simp add: wrap_def entirelyOutsideCanvas_def)

text \<open>
  C5, amended.  For every body and velocity whose \<open>x\<close>, \<open>width\<close> and speed are multiples
  of one half of magnitude at most a million (where the code adds without rounding):
  the new \<open>x\<close> is \<open>- width / 2\<close> when the body is flagged rightward and \<open>x + speed\<close>
  reaches the right edge, \<open>CANVAS_SIZE - width / 2\<close> when it is flagged leftward and
  \<open>x + speed + width\<close> does not reach past the left edge, and \<open>x + speed\<close> otherwise;
  nothing else of the body changes.  If moreover the body has positive width, the speed
  is non-zero in the direction of the flag, and the body does not start beyond the edge
  behind it, the result is not entirely outside the canvas.
\<close>

theorem wrap_cases:
  assumes "onHalfGrid (x b)" and "onHalfGrid (width b)" and "onHalfGrid speed"
  shows "wrap b left speed =
     b\<lparr>x := (if left \<and> CANVAS_SIZE \<le> x b + speed then - width b / 2
             else if \<not> left \<and> x b + speed \<le> - width b then CANVAS_SIZE - width b / 2
             else x b + speed)\<rparr>
   \<and> (0 < width b \<and> (if left then 0 < speed \<and> 0 \<le> x b + width b
                        else speed < 0 \<and> x b \<le> CANVAS_SIZE)
        \<longrightarrow> \<not> entirelyOutsideCanvas (wrap b left speed))"
  by (auto simp: wrap_def entirelyOutsideCanvas_def Let_def)

theorem wrap_cases_witness:
  "onHalfGrid 600 \<and> onHalfGrid 40 \<and> onHalfGrid 20
   \<and> x (wrap \<lparr>id_str = ''CAR2-3'', x = 600, y = 405, img = ''../frogger/assets/car2.png'',
            width = 40, height = 42, leftDirection = True\<rparr> True 20) = - 20
   \<and> \<not> entirelyOutsideCanvas
     (wrap \<lparr>id_str = ''CAR2-3'', x = 600, y = 405, img = ''../frogger/assets/car2.png'',
            width = 40, height = 42, leftDirection = True\<rparr> True 20)"
  using wrap_cases [of "\<lparr>id_str = ''CAR2-3'', x = 600, y = 405, img = ''../frogger/assets/car2.png'',
            width = 40, height = 42, leftDirection = True\<rparr>" 20 True]
  by (simp add: entirelyOutsideCanvas_def onHalfGrid_def)

section \<open>Move events\<close>

lemmas bounds_eval =
  illegalMove_def outLeftBound_def outRightBound_def outUpBound_def outDownBound_def
  getXCoord_def

text \<open>
  C6.  A move proposes \<open>x + dx\<close> and \<open>y + dy\<close>.  The new \<open>x\<close> is \<open>x + dx\<close> unless that is
  left of 21 or at least 580, the new \<open>y\<close> is \<open>y + dy\<close> unless that is above 51 or at
  least 582; each axis is decided without looking at the other, and the snapshot is
  otherwise the incoming one.
\<close>

theorem move_axes_independent:
  "reduceState s (Move dx dy) =
     Some (s\<lparr>frog := (frog s)
       \<lparr>x := (if outLeftBound (x (frog s) + dx) \<or> outRightBound (x (frog s) + dx)
              then x (frog s) else x (frog s) + dx),
        y := (if outUpBound (y (frog s) + dy) \<or> outDownBound (y (frog s) + dy)
              then y (frog s) else y (frog s) + dy)\<rparr>\<rparr>)
   \<and> (outLeftBound v \<longleftrightarrow> v < 21) \<and> (outRightBound v \<longleftrightarrow> 580 \<le> v)
   \<and> (outUpBound w \<longleftrightarrow> w < 51) \<and> (outDownBound w \<longleftrightarrow> 582 \<le> w)"
  by (simp add: bounds_eval Let_def)

theorem move_axes_independent_witness:
  "reduceState (initialState\<lparr>frog := (frog initialState)\<lparr>x := 279, y := 51\<rparr>\<rparr>) (Move 43 (- 59))
     = Some (initialState\<lparr>frog := (frog initialState)\<lparr>x := 322, y := 51\<rparr>\<rparr>)"
  using move_axes_independent
    [of "initialState\<lparr>frog := (frog initialState)\<lparr>x := 279, y := 51\<rparr>\<rparr>" 43 "- 59" 0 0]
  by (simp add: initial_frog bounds_eval)

section \<open>Obstacle strike\<close>

text \<open>
  What the predicate computes, for an obstacle of non-negative width: the rows agree,
  the two half-open spans intersect, and the obstacle's span does not contain the
  player's.  So spans that merely touch are no strike, partial overlaps and a player
  wider than the obstacle are, and an obstacle covering the player is missed.
\<close>

lemma obstacleCollision_iff:
  "0 \<le> width ob \<Longrightarrow>
   obstacleCollision f ob \<longleftrightarrow>
     y f = y ob \<and> (x f < x ob + width ob \<and> x ob < x f + width f)
     \<and> \<not> (x ob \<le> x f \<and> x f + width f \<le> x ob + width ob)"
  by (auto simp: obstacleCollision_def)

lemma obstacleCollision_touching:
  "x f + width f = x ob \<Longrightarrow> 0 \<le> width ob \<Longrightarrow> \<not> obstacleCollision f ob"
  by (auto simp: obstacleCollision_def)

lemmas reducer_eval =
  tick_def handleCollisions_def frogCollided_def obstacleCollision_def onWater_def
  frogOnObj_def frogOnLog_def frogOnTurtle_def onWaterObj_def unsafeBoundary_def onBushes_def
  getXCoord_def inTarget_def updateScore_def updateFilledInd_def checkFilled_def tickFrog_def
  tickCar_def tickLog_def tickTurtle_def wrap_def speedMultiplier_def charAt_def
  illegalMove_def outLeftBound_def outRightBound_def outUpBound_def outDownBound_def
  moveLeft_def moveRight_def moveUp_def moveDown_def Let_def

lemma initialState_explicit:
  "initialState =
     \<lparr>frog = \<lparr>id_str = ''FROG'', x = 279, y = 523, img = ''../frogger/assets/frog.png'',
               width = 40, height = 42\<rparr>,
      cars = cars initialState, logs = logs initialState, turtles = turtles initialState,
      filledSpaces = filledSpaces initialState, filledSpacesIndex = [], score = 0,
      highscore = 0, level = 0, gameOver = False\<rparr>"
  by (simp add: initialState_def createFrog_def)

text \<open>
  C2 at a snapshot of real play.  After \<open>coincidentRun\<close> the player stands in the first
  traffic lane at \<open>x = 150\<close> and the car \<^verbatim>\<open>CAR1-1\<close> occupies exactly the same span of the
  same row; the strike predicate is false for the pair and the tick has left the
  game-over flag clear.
\<close>

theorem coincident_car_not_struck:
  "map_option (\<lambda>s. (frog s, cars s ! 2, gameOver s)) (run initialState coincidentRun) =
     Some (\<lparr>id_str = ''FROG'', x = 150, y = 464, img = ''../frogger/assets/frog.png'',
             width = 40, height = 42\<rparr>,
           \<lparr>id_str = ''CAR1-1'', x = 150, y = 464, img = ''../frogger/assets/car1.png'',
             width = 40, height = 42, leftDirection = False\<rparr>,
           False)
   \<and> \<not> obstacleCollision
         \<lparr>id_str = ''FROG'', x = 150, y = 464, img = ''../frogger/assets/frog.png'',
           width = 40, height = 42\<rparr>
         \<lparr>id_str = ''CAR1-1'', x = 150, y = 464, img = ''../frogger/assets/car1.png'',
           width = 40, height = 42, leftDirection = False\<rparr>"
proof
  show "map_option (\<lambda>s. (frog s, cars s ! 2, gameOver s)) (run initialState coincidentRun) =
     Some (\<lparr>id_str = ''FROG'', x = 150, y = 464, img = ''../frogger/assets/frog.png'',
             width = 40, height = 42\<rparr>,
           \<lparr>id_str = ''CAR1-1'', x = 150, y = 464, img = ''../frogger/assets/car1.png'',
             width = 40, height = 42, leftDirection = False\<rparr>,
           False)"
    apply (subst initialState_explicit)
    apply (simp add: coincidentRun_def reducer_eval initial_fields initial_cars_3
        initial_logs_3 initial_turtles_3 initial_slots_5)
    done
  show "\<not> obstacleCollision
         \<lparr>id_str = ''FROG'', x = 150, y = 464, img = ''../frogger/assets/frog.png'',
           width = 40, height = 42\<rparr>
         \<lparr>id_str = ''CAR1-1'', x = 150, y = 464, img = ''../frogger/assets/car1.png'',
           width = 40, height = 42, leftDirection = False\<rparr>"
    by (simp add: obstacleCollision_def)
qed

section \<open>Progress tracker\<close>

lemma targetIndex_simps:
  "targetIndex \<lparr>id_str = ''FILLED5'', x = a, y = b, img = i, width = w, height = h, leftDirection = d\<rparr> = Num 4"
  "targetIndex \<lparr>id_str = ''FILLED4'', x = a, y = b, img = i, width = w, height = h, leftDirection = d\<rparr> = Num 3"
  "targetIndex \<lparr>id_str = ''FILLED3'', x = a, y = b, img = i, width = w, height = h, leftDirection = d\<rparr> = Num 2"
  "targetIndex \<lparr>id_str = ''FILLED2'', x = a, y = b, img = i, width = w, height = h, leftDirection = d\<rparr> = Num 1"
  "targetIndex \<lparr>id_str = ''FILLED1'', x = a, y = b, img = i, width = w, height = h, leftDirection = d\<rparr> = Num 0"
  by (simp_all add: targetIndex_def charAt_def toNumber_def digitValue_def jsMinus_def)

lemma slotThree_nearest:
  "nearestObject slotThreeSnapshot =
     Some \<lparr>id_str = ''FILLED3'', x = 279, y = 51, img = ''../frogger/assets/frog.png'',
            width = 40, height = 42, leftDirection = False\<rparr>"
  by (simp add: slotThreeSnapshot_def nearestObject_def initial_fields initial_slots_5 initial_frog)

lemma slotThree_inTarget: "inTarget slotThreeSnapshot"
  by (simp add: slotThreeSnapshot_def inTarget_def onBushes_def getXCoord_def initial_frog)

lemma slotThree_fields:
  "filledSpacesIndex slotThreeSnapshot = [Num 2]" "score slotThreeSnapshot = 100"
  by (simp_all add: slotThreeSnapshot_def)

text \<open>
  C8.  When the player is in the target row outside the bushes and the index of the
  nearest slot is already among the filled indices, the fill update returns the filled
  indices as they are and the score update returns the score as it is.
\<close>

theorem fill_idempotent:
  assumes "inTarget s" and "nearestObject s = Some b"
    and "targetIndex b \<in> set (filledSpacesIndex s)"
  shows "updateFilledInd s = Some (filledSpacesIndex s) \<and> updateScore s = Some (score s)"
  using assms by (simp add: updateFilledInd_def updateScore_def checkFilled_def)

theorem fill_idempotent_witness:
  "inTarget slotThreeSnapshot \<and> updateFilledInd slotThreeSnapshot = Some [Num 2]
   \<and> updateScore slotThreeSnapshot = Some 100"
  using fill_idempotent [OF slotThree_inTarget slotThree_nearest]
  by (simp add: slotThree_inTarget targetIndex_simps slotThree_fields)

text \<open>
  The same read as two calls in sequence: whatever the first fill and score update
  return, a second pair of updates on their results returns them again.
\<close>

lemma fill_twice:
  assumes "inTarget s" and "updateFilledInd s = Some fi" and "updateScore s = Some sc"
  shows "updateFilledInd (s\<lparr>filledSpacesIndex := fi, score := sc\<rparr>) = Some fi
         \<and> updateScore (s\<lparr>filledSpacesIndex := fi, score := sc\<rparr>) = Some sc"
  using assms
  by (auto simp: updateFilledInd_def updateScore_def checkFilled_def inTarget_def
      nearestObject_def split: option.splits list.splits if_splits)

section \<open>Ticks of a running game\<close>

text \<open>
  The slot the reduction picks is one of the slots, and the reduction throws only on an
  empty collection; so a tick returns whenever there is a slot and a fourth log.
\<close>

lemma foldl_pick_mem:
  "foldl (\<lambda>acc ob. if P ob acc then ob else acc) b bs \<in> set (b # bs)"
  by (induction bs arbitrary: b) (auto split: if_splits)

lemma nearestObject_mem: "nearestObject s = Some b \<Longrightarrow> b \<in> set (filledSpaces s)"
  using foldl_pick_mem [where P = "\<lambda>ob acc. \<bar>x ob - x (frog s)\<bar> < \<bar>x acc - x (frog s)\<bar>"]
  by (auto simp: nearestObject_def split: list.splits)

lemma nearestObject_Some: "filledSpaces s \<noteq> [] \<Longrightarrow> \<exists>b. nearestObject s = Some b"
  by (simp add: nearestObject_def split: list.splits)

lemma nearestObject_None: "nearestObject s = None \<longleftrightarrow> filledSpaces s = []"
  by (simp add: nearestObject_def split: list.splits)

lemma updateScore_total: "filledSpaces s \<noteq> [] \<Longrightarrow> \<exists>sc. updateScore s = Some sc"
  using nearestObject_Some [of s] by (auto simp: updateScore_def checkFilled_def)

lemma updateFilledInd_total: "filledSpaces s \<noteq> [] \<Longrightarrow> \<exists>fi. updateFilledInd s = Some fi"
  using nearestObject_Some [of s] by (auto simp: updateFilledInd_def)

lemma tickFrog_total: "4 \<le> length (logs s) \<Longrightarrow> \<exists>fr. tickFrog s = Some fr"
  by (simp add: tickFrog_def Let_def)

lemma tick_total:
  assumes "filledSpaces s \<noteq> []" and "4 \<le> length (logs s)"
  shows "\<exists>s'. tick s = Some s'"
proof -
  obtain sc where "updateScore s = Some sc" using updateScore_total [OF assms(1)] ..
  moreover obtain fr where "tickFrog s = Some fr" using tickFrog_total [OF assms(2)] ..
  moreover obtain fi where "updateFilledInd s = Some fi" using updateFilledInd_total [OF assms(1)] ..
  ultimately show ?thesis by (simp add: tick_def Let_def)
qed

lemma tick_live_fields:
  assumes "\<not> gameOver s" and "tick s = Some s'"
  shows "filledSpaces s' = filledSpaces s"
    and "cars s' = map (tickCar (speedMultiplier s)) (cars s)"
    and "logs s' = map (tickLog (speedMultiplier s)) (logs s)"
    and "turtles s' = map (tickTurtle (speedMultiplier s)) (turtles s)"
    and "highscore s' = max (highscore s) (score s)"
    and "updateScore s = Some (score s')"
    and "tickFrog s = Some (frog s')"
    and "length (filledSpacesIndex s) < 5 \<Longrightarrow> updateFilledInd s = Some (filledSpacesIndex s')"
    and "\<not> length (filledSpacesIndex s) < 5 \<Longrightarrow> filledSpacesIndex s' = []"
    and "level s' = (if length (filledSpacesIndex s) < 5 then level s else level s + 1)"
  using assms
  by (auto simp: tick_def handleCollisions_def Let_def max_def split: option.splits if_splits)

section \<open>Level rollover\<close>

lemma five_indices_length:
  assumes "{Num 0, Num 1, Num 2, Num 3, Num 4} \<subseteq> set xs"
  shows "5 \<le> length xs"
proof -
  have "card {Num 0, Num 1, Num 2, Num 3, Num 4} \<le> card (set xs)"
    using assms by (intro card_mono) simp_all
  moreover have "card {Num 0, Num 1, Num 2, Num 3, Num 4} = 5" by simp
  moreover have "card (set xs) \<le> length xs" by (rule card_length)
  ultimately show ?thesis by linarith
qed

lemma slot_targetIndex:
  "b \<in> set (filledSpaces initialState) \<Longrightarrow>
   targetIndex b \<in> {Num 0, Num 1, Num 2, Num 3, Num 4}"
  by (auto simp: initial_fields initial_slots_5 targetIndex_simps)

lemma initial_slots_nonempty: "filledSpaces initialState \<noteq> []"
  by (simp add: initial_fields initial_slots_5)

lemma updateScore_all_filled:
  assumes "{Num 0, Num 1, Num 2, Num 3, Num 4} \<subseteq> set (filledSpacesIndex s)"
    and "filledSpaces s = filledSpaces initialState"
  shows "updateScore s = Some (score s)"
proof (cases "inTarget s")
  case False
  then show ?thesis by (simp add: updateScore_def)
next
  case True
  obtain b where b: "nearestObject s = Some b"
    using nearestObject_Some [of s] assms(2) initial_slots_nonempty by auto
  have "targetIndex b \<in> set (filledSpacesIndex s)"
    using nearestObject_mem [OF b] slot_targetIndex [of b] assms by auto
  with b show ?thesis by (simp add: updateScore_def checkFilled_def)
qed

lemma rollover_fields:
  "gameOver rolloverSnapshot = False"
  "filledSpacesIndex rolloverSnapshot = [Num 0, Num 1, Num 2, Num 3, Num 4]"
  "filledSpaces rolloverSnapshot = filledSpaces initialState"
  "logs rolloverSnapshot = logs initialState"
  "cars rolloverSnapshot = cars initialState"
  "turtles rolloverSnapshot = turtles initialState"
  "frog rolloverSnapshot = frog initialState"
  "score rolloverSnapshot = 500"
  "highscore rolloverSnapshot = 400"
  "level rolloverSnapshot = 0"
  by (simp_all add: rolloverSnapshot_def initial_fields)

lemma rollover_tick_Some: "\<exists>s'. tick rolloverSnapshot = Some s'"
  by (rule tick_total) (simp_all add: rollover_fields initial_fields initial_logs_3 initial_slots_5)

text \<open>
  C3, as stated, fails for the high score: the rollover tick still runs the per-tick
  high-score update, and at the first rollover of a record life the high score is one
  tick behind the score.  From score 500 and high score 400 the tick returns high
  score 500.
\<close>

theorem rollover_highscore_counterexample:
  "highscore rolloverSnapshot = 400
   \<and> map_option highscore (tick rolloverSnapshot) = Some 500"
proof -
  obtain s' where t: "tick rolloverSnapshot = Some s'" using rollover_tick_Some ..
  have "highscore s' = 500"
    using tick_live_fields(5) [OF _ t] by (simp add: rollover_fields)
  with t show ?thesis by (simp add: rollover_fields)
qed

text \<open>
  C3, amended.  From a snapshot that is not game-over, holds the five factory-built
  target slots and at least four logs, and whose filled indices include 0 to 4, one
  tick returns a snapshot with the level raised by exactly 1, no filled index, the same
  score, and as high score the larger of the incoming high score and score (so the
  high score is unchanged exactly when the score does not exceed it).
\<close>

theorem tick_rollover:
  assumes "\<not> gameOver s"
    and "{Num 0, Num 1, Num 2, Num 3, Num 4} \<subseteq> set (filledSpacesIndex s)"
    and "filledSpaces s = filledSpaces initialState"
    and "4 \<le> length (logs s)"
  shows "\<exists>s'. tick s = Some s' \<and> level s' = level s + 1 \<and> filledSpacesIndex s' = []
           \<and> score s' = score s \<and> highscore s' = max (highscore s) (score s)"
proof -
  have full: "\<not> length (filledSpacesIndex s) < 5"
    using five_indices_length [OF assms(2)] by simp
  obtain s' where t: "tick s = Some s'"
    using tick_total [of s] assms(3,4) initial_slots_nonempty by auto
  have "score s' = score s"
    using tick_live_fields(6) [OF assms(1) t] updateScore_all_filled [OF assms(2,3)] by simp
  moreover have "level s' = level s + 1"
    using tick_live_fields(10) [OF assms(1) t] full by simp
  moreover have "filledSpacesIndex s' = []"
    using tick_live_fields(9) [OF assms(1) t full] .
  moreover have "highscore s' = max (highscore s) (score s)"
    using tick_live_fields(5) [OF assms(1) t] .
  ultimately show ?thesis using t by simp
qed

theorem tick_rollover_witness:
  "\<exists>s'. tick rolloverSnapshot = Some s' \<and> level s' = 1 \<and> filledSpacesIndex s' = []
           \<and> score s' = 500 \<and> highscore s' = 500"
  using tick_rollover [of rolloverSnapshot]
  by (simp add: rollover_fields initial_fields initial_logs_3)

text \<open>
  C4, as stated, fails: the rollover branch maps the motion step over the bodies just
  as the ordinary branch does.  From the initial layout the first car is at 590 after
  the rollover tick, not back at 600.
\<close>

theorem rollover_layout_counterexample:
  "map_option (x \<circ> hd \<circ> cars) (tick rolloverSnapshot) = Some 590
   \<and> (x \<circ> hd \<circ> cars) initialState = 600"
proof -
  obtain s' where t: "tick rolloverSnapshot = Some s'" using rollover_tick_Some ..
  have "cars s' = map (tickCar (speedMultiplier rolloverSnapshot)) (cars rolloverSnapshot)"
    using tick_live_fields(2) [OF _ t] by (simp add: rollover_fields)
  then have "x (hd (cars s')) = 590"
    by (simp add: rollover_fields initial_fields initial_cars_3 speedMultiplier_def
        tickCar_def wrap_def charAt_def)
  with t show ?thesis by (simp add: initial_fields initial_cars_3)
qed

text \<open>
  C4, amended.  From a snapshot that is not game-over, holds at least five filled
  indices, at least one target slot and at least four logs, a tick returns a snapshot
  whose cars, logs and turtles are the incoming ones advanced element-wise by the motion
  step at the incoming level's speed multiplier, and whose target slots are the
  incoming ones unchanged.
\<close>

theorem tick_rollover_motion:
  assumes "\<not> gameOver s" and "5 \<le> length (filledSpacesIndex s)"
    and "filledSpaces s \<noteq> []" and "4 \<le> length (logs s)"
  shows "\<exists>s'. tick s = Some s'
           \<and> cars s' = map (tickCar (speedMultiplier s)) (cars s)
           \<and> logs s' = map (tickLog (speedMultiplier s)) (logs s)
           \<and> turtles s' = map (tickTurtle (speedMultiplier s)) (turtles s)
           \<and> filledSpaces s' = filledSpaces s"
proof -
  obtain s' where t: "tick s = Some s'" using tick_total [OF assms(3,4)] ..
  show ?thesis using t tick_live_fields(1-4) [OF assms(1) t] by simp
qed

theorem tick_rollover_motion_witness:
  "\<exists>s'. tick rolloverSnapshot = Some s'
           \<and> cars s' = map (tickCar 0) (cars initialState)
           \<and> logs s' = map (tickLog 0) (logs initialState)
           \<and> turtles s' = map (tickTurtle 0) (turtles initialState)
           \<and> filledSpaces s' = filledSpaces initialState"
  using tick_rollover_motion [of rolloverSnapshot]
  by (simp add: rollover_fields initial_fields initial_logs_3 initial_slots_5 speedMultiplier_def)

section \<open>High score\<close>

text \<open>
  C7.  Whatever the snapshot and the event, a snapshot the reducer returns has a high
  score at least that of the incoming snapshot; and the reducer does return one
  whenever the incoming snapshot has a target slot and at least four logs.
\<close>

theorem highscore_monotone:
  "(\<forall>s'. reduceState s e = Some s' \<longrightarrow> highscore s \<le> highscore s')
   \<and> (filledSpaces s \<noteq> [] \<and> 4 \<le> length (logs s) \<longrightarrow> (\<exists>s'. reduceState s e = Some s'))"
proof (cases e)
  case (Tick n)
  have "highscore s \<le> highscore s'" if "tick s = Some s'" for s'
  proof (cases "gameOver s")
    case True
    with that show ?thesis by (auto simp: tick_def resetState_eq)
  next
    case False
    then show ?thesis using tick_live_fields(5) [OF False that] by simp
  qed
  then show ?thesis using Tick tick_total [of s] by auto
next
  case (Move ex ey)
  then show ?thesis by (auto simp: Let_def)
next
  case (Restart v)
  then show ?thesis by (auto simp: resetState_eq)
qed

theorem highscore_monotone_witness:
  "\<exists>s'. reduceState rolloverSnapshot (Tick 0) = Some s'
        \<and> highscore rolloverSnapshot \<le> highscore s'"
  using highscore_monotone [of rolloverSnapshot "Tick 0"]
  by (auto simp: rollover_fields initial_fields initial_logs_3 initial_slots_5)

section \<open>Invariants of a run\<close>

lemma initial_logs_length: "length (logs initialState) = 6"
  by (simp add: initial_fields initial_logs_3)

lemma reduce_keeps_layout:
  assumes "filledSpaces s = filledSpaces initialState" and "length (logs s) = 6"
  shows "\<exists>s'. reduceState s e = Some s' \<and> filledSpaces s' = filledSpaces initialState
           \<and> length (logs s') = 6"
proof (cases e)
  case (Tick n)
  show ?thesis
  proof (cases "gameOver s")
    case True
    then show ?thesis using Tick by (simp add: tick_def resetState_eq initial_logs_length)
  next
    case False
    obtain s' where t: "tick s = Some s'"
      using tick_total [of s] assms initial_slots_nonempty by auto
    show ?thesis using Tick t tick_live_fields(1,3) [OF False t] assms by simp
  qed
next
  case (Move ex ey)
  then show ?thesis using assms by (simp add: Let_def)
next
  case (Restart v)
  then show ?thesis by (simp add: resetState_eq initial_logs_length)
qed

lemma updateFilledInd_keeps:
  assumes "filledSpaces s = filledSpaces initialState"
    and "set (filledSpacesIndex s) \<subseteq> {Num 0, Num 1, Num 2, Num 3, Num 4}"
    and "distinct (filledSpacesIndex s)"
    and "updateFilledInd s = Some fi"
  shows "set fi \<subseteq> {Num 0, Num 1, Num 2, Num 3, Num 4} \<and> distinct fi"
proof (cases "inTarget s")
  case False
  with assms show ?thesis by (simp add: updateFilledInd_def)
next
  case True
  obtain b where b: "nearestObject s = Some b"
    using nearestObject_Some [of s] assms(1) initial_slots_nonempty by auto
  have "targetIndex b \<in> {Num 0, Num 1, Num 2, Num 3, Num 4}"
    using nearestObject_mem [OF b] slot_targetIndex [of b] assms(1) by simp
  with True b assms show ?thesis by (auto simp: updateFilledInd_def split: if_splits)
qed

lemma reduce_keeps_indices:
  assumes "filledSpaces s = filledSpaces initialState"
    and "set (filledSpacesIndex s) \<subseteq> {Num 0, Num 1, Num 2, Num 3, Num 4}"
    and "distinct (filledSpacesIndex s)"
    and "reduceState s e = Some s'"
  shows "set (filledSpacesIndex s') \<subseteq> {Num 0, Num 1, Num 2, Num 3, Num 4}
         \<and> distinct (filledSpacesIndex s')"
proof (cases e)
  case (Tick n)
  then have t: "tick s = Some s'" using assms(4) by simp
  show ?thesis
  proof (cases "gameOver s")
    case True
    with t show ?thesis by (auto simp: tick_def resetState_eq initial_fields)
  next
    case False
    show ?thesis
    proof (cases "length (filledSpacesIndex s) < 5")
      case True
      show ?thesis
        using updateFilledInd_keeps [OF assms(1-3) tick_live_fields(8) [OF False t True]] .
    next
      case full: False
      then show ?thesis using tick_live_fields(9) [OF False t full] by simp
    qed
  qed
next
  case (Move ex ey)
  then show ?thesis using assms by (auto simp: Let_def)
next
  case (Restart v)
  then show ?thesis using assms(4) by (auto simp: resetState_eq initial_fields)
qed

lemma run_keeps_indices:
  assumes "filledSpaces s = filledSpaces initialState" and "length (logs s) = 6"
    and "set (filledSpacesIndex s) \<subseteq> {Num 0, Num 1, Num 2, Num 3, Num 4}"
    and "distinct (filledSpacesIndex s)"
  shows "\<exists>s'. run s es = Some s'
           \<and> set (filledSpacesIndex s') \<subseteq> {Num 0, Num 1, Num 2, Num 3, Num 4}
           \<and> distinct (filledSpacesIndex s')"
  using assms
proof (induction es arbitrary: s)
  case Nil
  then show ?case by simp
next
  case (Cons e es)
  obtain s1 where s1: "reduceState s e = Some s1"
    "filledSpaces s1 = filledSpaces initialState" "length (logs s1) = 6"
    using reduce_keeps_layout [OF Cons.prems(1,2), of e] by auto
  have "set (filledSpacesIndex s1) \<subseteq> {Num 0, Num 1, Num 2, Num 3, Num 4}
        \<and> distinct (filledSpacesIndex s1)"
    using reduce_keeps_indices [OF Cons.prems(1,3,4) s1(1)] .
  then show ?case using Cons.IH [OF s1(2,3)] s1(1) by simp
qed

text \<open>
  C9.  Every finite sequence of events, moves of any size included, takes the initial
  snapshot to a snapshot (no reduction throws) whose filled indices are all among
  0 to 4 and pairwise distinct.
\<close>

theorem filled_indices_invariant:
  "\<exists>s. run initialState es = Some s
       \<and> set (filledSpacesIndex s) \<subseteq> {Num 0, Num 1, Num 2, Num 3, Num 4}
       \<and> distinct (filledSpacesIndex s)"
  by (rule run_keeps_indices) (simp_all add: initial_logs_length initial_fields(5))

theorem filled_indices_invariant_witness:
  "\<exists>s. run initialState [Move 43 0, Tick 0, Restart True, Move 0 (- 1)] = Some s
       \<and> set (filledSpacesIndex s) \<subseteq> {Num 0, Num 1, Num 2, Num 3, Num 4}
       \<and> distinct (filledSpacesIndex s)"
  using filled_indices_invariant [of "[Move 43 0, Tick 0, Restart True, Move 0 (- 1)]"] .

lemma row_iff:
  "(\<exists>k\<le>8. v = FROG_START_Y - FROG_STEP_Y * of_nat k)
   \<longleftrightarrow> v \<in> {523, 464, 405, 346, 287, 228, 169, 110, 51 :: rat}"
proof
  assume "\<exists>k\<le>8. v = FROG_START_Y - FROG_STEP_Y * of_nat k"
  then obtain k :: nat where k: "k \<le> 8" "v = 523 - 59 * of_nat k" by auto
  from k(1) have "k = 0 \<or> k = 1 \<or> k = 2 \<or> k = 3 \<or> k = 4 \<or> k = 5 \<or> k = 6 \<or> k = 7 \<or> k = 8"
    by arith
  with k(2) show "v \<in> {523, 464, 405, 346, 287, 228, 169, 110, 51}" by auto
next
  assume "v \<in> {523, 464, 405, 346, 287, 228, 169, 110, 51}"
  then show "\<exists>k\<le>8. v = FROG_START_Y - FROG_STEP_Y * of_nat k"
    apply (elim insertE emptyE)
            apply (rule exI [of _ 0], simp)
           apply (rule exI [of _ 1], simp)
          apply (rule exI [of _ 2], simp)
         apply (rule exI [of _ 3], simp)
        apply (rule exI [of _ 4], simp)
       apply (rule exI [of _ 5], simp)
      apply (rule exI [of _ 6], simp)
     apply (rule exI [of _ 7], simp)
    apply (rule exI [of _ 8], simp)
    done
qed

lemma tickFrog_row:
  "tickFrog s = Some fr \<Longrightarrow> y fr = y (frog s) \<or> y fr = 523"
  by (auto simp: tickFrog_def Let_def initial_frog split: if_splits)

lemma reduce_keeps_row:
  assumes "emitted e" and "reduceState s e = Some s'"
    and "y (frog s) \<in> {523, 464, 405, 346, 287, 228, 169, 110, 51}"
  shows "y (frog s') \<in> {523, 464, 405, 346, 287, 228, 169, 110, 51}"
proof (cases e)
  case (Tick n)
  then have t: "tick s = Some s'" using assms(2) by simp
  show ?thesis
  proof (cases "gameOver s")
    case True
    with t show ?thesis by (auto simp: tick_def resetState_eq initial_frog)
  next
    case False
    show ?thesis using tickFrog_row [OF tick_live_fields(7) [OF False t]] assms(3) by auto
  qed
next
  case (Move ex ey)
  then have "ey = 0 \<or> ey = 59 \<or> ey = - 59"
    using assms(1) by (auto simp: moveLeft_def moveRight_def moveUp_def moveDown_def)
  moreover have "y (frog s') =
      (if illegalMove FROG_START_X (y (frog s) + ey) then y (frog s) else y (frog s) + ey)"
    using assms(2) Move by (auto simp: Let_def)
  ultimately show ?thesis using assms(3) by (auto simp: bounds_eval)
next
  case (Restart v)
  then show ?thesis using assms(2) by (auto simp: resetState_eq initial_frog)
qed

lemma run_keeps_row:
  assumes "list_all emitted es"
    and "filledSpaces s = filledSpaces initialState" and "length (logs s) = 6"
    and "y (frog s) \<in> {523, 464, 405, 346, 287, 228, 169, 110, 51}"
  shows "\<exists>s'. run s es = Some s' \<and> y (frog s') \<in> {523, 464, 405, 346, 287, 228, 169, 110, 51}"
  using assms
proof (induction es arbitrary: s)
  case Nil
  then show ?case by simp
next
  case (Cons e es)
  obtain s1 where s1: "reduceState s e = Some s1"
    "filledSpaces s1 = filledSpaces initialState" "length (logs s1) = 6"
    using reduce_keeps_layout [OF Cons.prems(2,3), of e] by auto
  have "y (frog s1) \<in> {523, 464, 405, 346, 287, 228, 169, 110, 51}"
    using reduce_keeps_row [OF _ s1(1) Cons.prems(4)] Cons.prems(1) by simp
  then show ?case using Cons.IH [OF _ s1(2,3)] Cons.prems(1) s1(1) by simp
qed

text \<open>
  C10, as stated, fails: the reducer accepts a move of any size that stays in bounds.
  The single event \<^verbatim>\<open>Move(0, -1)\<close> takes the initial snapshot to row 522, which is
  none of the nine rows.
\<close>

theorem player_row_counterexample:
  "map_option (y \<circ> frog) (run initialState [Move 0 (- 1)]) = Some 522
   \<and> (522 :: rat) \<notin> {523, 464, 405, 346, 287, 228, 169, 110, 51}"
  by (simp add: initial_frog bounds_eval Let_def)

text \<open>
  C10, amended.  Every finite sequence of ticks, restarts and the four moves that the
  key streams construct (\<^verbatim>\<open>Move(-43, 0)\<close>, \<^verbatim>\<open>Move(43, 0)\<close>, \<^verbatim>\<open>Move(0, -59)\<close>,
  \<^verbatim>\<open>Move(0, 59)\<close>) takes the initial snapshot to a snapshot (no reduction throws) whose
  player row is \<open>523 - 59 * k\<close> for some \<open>k\<close> from 0 to 8.
\<close>

theorem player_row_invariant:
  assumes "list_all emitted es"
  shows "\<exists>s. run initialState es = Some s
           \<and> (\<exists>k\<le>8. y (frog s) = FROG_START_Y - FROG_STEP_Y * of_nat k)"
proof -
  obtain s where "run initialState es = Some s"
    "y (frog s) \<in> {523, 464, 405, 346, 287, 228, 169, 110, 51}"
    using run_keeps_row [OF assms, of initialState]
    by (auto simp: initial_logs_length initial_frog)
  then show ?thesis using row_iff [of "y (frog s)"] by blast
qed

theorem player_row_invariant_witness:
  "list_all emitted [moveUp, Tick 0, moveUp, moveDown]
   \<and> (\<exists>s. run initialState [moveUp, Tick 0, moveUp, moveDown] = Some s
           \<and> (\<exists>k\<le>8. y (frog s) = FROG_START_Y - FROG_STEP_Y * of_nat k))"
  using player_row_invariant [of "[moveUp, Tick 0, moveUp, moveDown]"]
  by (simp add: moveLeft_def moveRight_def moveUp_def moveDown_def)

end
